theory Spec2Isabelle
  imports Main "HOL-Library.Product_Lexorder"
begin

section \<open>Data model of \<open>InventoryAllocationSystem\<close>\<close>

text \<open>
  The tables of \<^verbatim>\<open>src/app/utils/allocation_4.py\<close> are pandas data frames. A frame is
  modelled as the list of its rows, in row order. Identifiers and quantities are the
  integers that \<^verbatim>\<open>load_and_clean_data\<close> produces with \<^verbatim>\<open>astype(int)\<close>; they are taken
  as mathematical integers (sums are assumed to stay inside the 64-bit range of the
  frame columns). A point in time (an expiry date, \<^verbatim>\<open>datetime.now()\<close>) is an integer
  number of nanoseconds on one linear time scale; \<^verbatim>\<open>timedelta(days=d)\<close> is \<open>d\<close> times
  the length of a day.
\<close>

type_synonym time = int

record forecast_row =
  fc_product_id :: int
  fc_branch_id :: int
  fc_channel_id :: int
  fc_forecast_quantity :: int

record stock_row =
  st_product_id :: int
  st_branch_id :: int
  st_stock_available :: int
  st_expiry_date :: time

record analysis_row =
  an_product_id :: int
  an_branch_id :: int
  an_channel_id :: int
  an_forecast_quantity :: int
  an_total_stock_available :: int
  an_total_forecast_at_branch :: int
  an_branch_net_need :: int
  an_allocation_status :: string

record allocation_row =
  al_product_id :: int
  al_from_branch :: int
  al_to_branch :: int
  al_channel_id :: int
  al_quantity_allocated :: int
  al_expiry_date :: time

record unfulfilled_row =
  un_product_id :: int
  un_branch_id :: int
  un_needed :: int
  un_fulfilled :: int
  un_unfulfilled :: int


text \<open>
  The attributes of the object after \<^verbatim>\<open>load_and_clean_data\<close>. \<^verbatim>\<open>__init__\<close> sets
  \<^verbatim>\<open>analysis_df\<close>, \<^verbatim>\<open>allocation_plan_df\<close> and \<^verbatim>\<open>remaining_cw_stock_df\<close> to \<^verbatim>\<open>None\<close> and
  \<^verbatim>\<open>unfulfilled_demands_df\<close> to an empty frame. The rows of \<^verbatim>\<open>stock_df\<close> carry the
  index labels that \<^verbatim>\<open>read_csv\<close> gave them; the labels are pairwise different, and the
  model uses the position of a row in \<open>stock_df\<close> as its label. The remaining-stock
  frame keeps these labels.
\<close>

record system =
  cw_branch_id :: int
  forecast_df :: "forecast_row list"
  stock_df :: "stock_row list"
  analysis_df :: "analysis_row list option"
  allocation_plan_df :: "allocation_row list option"
  unfulfilled_demands_df :: "unfulfilled_row list"
  remaining_cw_stock_df :: "(nat \<times> stock_row) list option"

section \<open>Frame operations\<close>

text \<open>
  \<^verbatim>\<open>df.groupby(keys)[col].sum().reset_index()\<close>: one row for each key that occurs, keys
  ascending, with the sum of the column over the rows of the group.
\<close>

definition groupby_sum :: "('r \<Rightarrow> 'k::linorder) \<Rightarrow> ('r \<Rightarrow> int) \<Rightarrow> 'r list \<Rightarrow> ('k \<times> int) list" where
  "groupby_sum key col rows =
     map (\<lambda>k. (k, sum_list (map col (filter (\<lambda>r. key r = k) rows))))
       (sort (remdups (map key rows)))"


text \<open>
  \<^verbatim>\<open>pd.merge(left, right, on=keys, how='left')\<close>: every left row, in order, joined with
  each right row of the same key, or with a missing value when there is none.
\<close>

definition merge_left :: "('l \<Rightarrow> 'k) \<Rightarrow> 'l list \<Rightarrow> ('k \<times> 'v) list \<Rightarrow> ('l \<times> 'v option) list" where
  "merge_left key left right =
     concat (map (\<lambda>l. case filter (\<lambda>(k, v). k = key l) right of
                         [] \<Rightarrow> [(l, None)]
                       | ms \<Rightarrow> map (\<lambda>(k, v). (l, Some v)) ms) left)"

text \<open>\<^verbatim>\<open>pd.merge(left, right, on=keys)\<close>, the inner join, in the order of the left rows.\<close>

definition merge_inner :: "('l \<Rightarrow> 'k) \<Rightarrow> 'l list \<Rightarrow> ('k \<times> 'v) list \<Rightarrow> ('l \<times> 'v) list" where
  "merge_inner key left right =
     concat (map (\<lambda>l. map (\<lambda>(k, v). (l, v)) (filter (\<lambda>(k, v). k = key l) right)) left)"

definition fillna :: "int \<Rightarrow> int option \<Rightarrow> int" where
  "fillna d v = (case v of None \<Rightarrow> d | Some x \<Rightarrow> x)"

section \<open>\<open>run_analysis\<close>\<close>

definition allocation_status_of :: "int \<Rightarrow> string" where
  "allocation_status_of x =
     (if x > 0 then ''Allocation Needed''
      else (if x = 0 then ''No Allocation Needed'' else ''Overstock''))"

text \<open>
  The frame built by lines 80 to 100. After the first merge a row is the aggregated
  forecast row with its \<open>total_stock_available\<close>; the second merge adds
  \<open>total_forecast_at_branch\<close>.
\<close>

definition analysis_frame :: "int \<Rightarrow> forecast_row list \<Rightarrow> stock_row list \<Rightarrow> analysis_row list" where
  "analysis_frame cw forecast stock =
     (let destination_stock = filter (\<lambda>s. st_branch_id s \<noteq> cw) stock;
          agg_branch_stock =
            groupby_sum (\<lambda>s. (st_product_id s, st_branch_id s)) st_stock_available destination_stock;
          agg_forecast =
            groupby_sum (\<lambda>f. (fc_product_id f, fc_branch_id f, fc_channel_id f))
              fc_forecast_quantity forecast;
          merged =
            map (\<lambda>(l, v). (l, fillna 0 v))
              (merge_left (\<lambda>((p, b, c), q). (p, b)) agg_forecast agg_branch_stock);
          branch_total_forecast =
            groupby_sum (\<lambda>(((p, b, c), q), s). (p, b)) (\<lambda>(((p, b, c), q), s). q) merged;
          merged2 = merge_inner (\<lambda>(((p, b, c), q), s). (p, b)) merged branch_total_forecast
      in map (\<lambda>((((p, b, c), q), s), t).
                \<lparr>an_product_id = p, an_branch_id = b, an_channel_id = c,
                 an_forecast_quantity = q, an_total_stock_available = s,
                 an_total_forecast_at_branch = t, an_branch_net_need = t - s,
                 an_allocation_status = allocation_status_of (t - s)\<rparr>) merged2)"

definition run_analysis :: "system \<Rightarrow> system" where
  "run_analysis self =
     self\<lparr>analysis_df := Some (analysis_frame (cw_branch_id self) (forecast_df self) (stock_df self))\<rparr>"

section \<open>\<open>run_allocation\<close>\<close>

text \<open>
  The state of the loop over the demand lines: the working copy of the central-warehouse
  stock with its index labels, the dictionary \<^verbatim>\<open>branch_need_tracker\<close> in insertion order,
  and the list \<^verbatim>\<open>allocation_plan\<close>. Each appended record is kept together with the label
  \<^verbatim>\<open>batch_idx\<close> of the batch it was taken from; the label is not part of the record and is
  dropped when the plan frame is built.
\<close>

record alloc_state =
  cw_stock_sorted :: "(nat \<times> stock_row) list"
  branch_need_tracker :: "((int \<times> int) \<times> int) list"
  allocation_plan :: "(nat \<times> allocation_row) list"

definition priority_rank :: "int list \<Rightarrow> int \<Rightarrow> int" where
  "priority_rank priority x = (if x \<in> set priority then 1 else 2)"

text \<open>
  \<^verbatim>\<open>sort_values\<close> on several columns is a stable lexicographic sort; descending order of
  \<open>forecast_quantity\<close> is ascending order of its negation, ties staying in frame order.
\<close>

definition priority_key :: "int list \<Rightarrow> int list \<Rightarrow> analysis_row \<Rightarrow> int \<times> int \<times> int" where
  "priority_key priority_channels priority_branches r =
     (priority_rank priority_channels (an_channel_id r),
      priority_rank priority_branches (an_branch_id r),
      - an_forecast_quantity r)"

definition demand_df :: "analysis_row list \<Rightarrow> analysis_row list" where
  "demand_df analysis = filter (\<lambda>r. an_allocation_status r = ''Allocation Needed'') analysis"

definition prioritized_demand_df :: "int list \<Rightarrow> int list \<Rightarrow> analysis_row list \<Rightarrow> analysis_row list" where
  "prioritized_demand_df priority_channels priority_branches analysis =
     sort_key (priority_key priority_channels priority_branches) (demand_df analysis)"



definition timedelta_days :: "int \<Rightarrow> time" where
  "timedelta_days d = d * 86400000000000"

text \<open>\<^verbatim>\<open>d.get(k, default)\<close> on a dictionary held as an association list.\<close>

definition dict_get :: "('k \<times> 'v) list \<Rightarrow> 'k \<Rightarrow> 'v \<Rightarrow> 'v" where
  "dict_get d k dflt = (case map_of d k of None \<Rightarrow> dflt | Some v \<Rightarrow> v)"


text \<open>\<^verbatim>\<open>frame.loc[batch_idx, 'stock_available'] -= take\<close>: the rows labelled \<open>batch_idx\<close>.\<close>

definition loc_sub :: "(nat \<times> stock_row) list \<Rightarrow> nat \<Rightarrow> int \<Rightarrow> (nat \<times> stock_row) list" where
  "loc_sub frame batch_idx amount =
     map (\<lambda>(i, s). if i = batch_idx
                    then (i, s\<lparr>st_stock_available := st_stock_available s - amount\<rparr>)
                    else (i, s)) frame"


definition required_expiry_date :: "(int \<rightharpoonup> int) \<Rightarrow> time \<Rightarrow> int \<Rightarrow> time" where
  "required_expiry_date expiry_rules today channel_id =
     today + timedelta_days (case expiry_rules channel_id of None \<Rightarrow> 0 | Some d \<Rightarrow> d)"

definition available_batches ::
  "(int \<rightharpoonup> int) \<Rightarrow> time \<Rightarrow> analysis_row \<Rightarrow> (nat \<times> stock_row) list \<Rightarrow> (nat \<times> stock_row) list" where
  "available_batches expiry_rules today demand_row stock =
     filter (\<lambda>(i, s). st_product_id s = an_product_id demand_row \<and>
                      st_expiry_date s \<ge> required_expiry_date expiry_rules today (an_channel_id demand_row))
       stock"







section \<open>Quantities the statements refer to\<close>

text \<open>
  The destination stock of a product at a branch: the sum of \<open>stock_available\<close> over
  the stock rows of that product and branch that are not at the central warehouse.
\<close>

definition branch_stock_total :: "int \<Rightarrow> stock_row list \<Rightarrow> int \<Rightarrow> int \<Rightarrow> int" where
  "branch_stock_total cw stock p b =
     sum_list (map st_stock_available
       (filter (\<lambda>s. st_branch_id s \<noteq> cw \<and> st_product_id s = p \<and> st_branch_id s = b) stock))"

definition channel_forecast_total :: "forecast_row list \<Rightarrow> int \<Rightarrow> int \<Rightarrow> int \<Rightarrow> int" where
  "channel_forecast_total forecast p b c =
     sum_list (map fc_forecast_quantity
       (filter (\<lambda>f. fc_product_id f = p \<and> fc_branch_id f = b \<and> fc_channel_id f = c) forecast))"

definition forecast_keys :: "forecast_row list \<Rightarrow> (int \<times> int \<times> int) list" where
  "forecast_keys forecast =
     sort (remdups (map (\<lambda>f. (fc_product_id f, fc_branch_id f, fc_channel_id f)) forecast))"

definition branch_forecast_total :: "forecast_row list \<Rightarrow> int \<Rightarrow> int \<Rightarrow> int" where
  "branch_forecast_total forecast p b =
     sum_list (map (\<lambda>(p, b, c). channel_forecast_total forecast p b c)
       (filter (\<lambda>(p', b', c). p' = p \<and> b' = b) (forecast_keys forecast)))"

definition analysis_row_of ::
  "int \<Rightarrow> forecast_row list \<Rightarrow> stock_row list \<Rightarrow> int \<times> int \<times> int \<Rightarrow> analysis_row" where
  "analysis_row_of cw forecast stock k =
     (case k of (p, b, c) \<Rightarrow>
        \<lparr>an_product_id = p, an_branch_id = b, an_channel_id = c,
         an_forecast_quantity = channel_forecast_total forecast p b c,
         an_total_stock_available = branch_stock_total cw stock p b,
         an_total_forecast_at_branch = branch_forecast_total forecast p b,
         an_branch_net_need = branch_forecast_total forecast p b - branch_stock_total cw stock p b,
         an_allocation_status =
           allocation_status_of (branch_forecast_total forecast p b - branch_stock_total cw stock p b)\<rparr>)"

section \<open>A concrete system\<close>

text \<open>
  Product 1 is forecast at branch 1 on channels 10 and 20 and at branch 2 on channel 10.
  Branch 1 holds 30 units; the central warehouse 1000 holds a batch of 70 that expires
  after 200 days and a batch of 60 that expires after 120 days.
\<close>

definition demo :: system where
  "demo = \<lparr>cw_branch_id = 1000,
     forecast_df =
       [\<lparr>fc_product_id = 1, fc_branch_id = 1, fc_channel_id = 10, fc_forecast_quantity = 100\<rparr>,
        \<lparr>fc_product_id = 1, fc_branch_id = 1, fc_channel_id = 20, fc_forecast_quantity = 50\<rparr>,
        \<lparr>fc_product_id = 1, fc_branch_id = 2, fc_channel_id = 10, fc_forecast_quantity = 40\<rparr>],
     stock_df =
       [\<lparr>st_product_id = 1, st_branch_id = 1, st_stock_available = 30, st_expiry_date = 0\<rparr>,
        \<lparr>st_product_id = 1, st_branch_id = 1000, st_stock_available = 70,
         st_expiry_date = 17280000000000000\<rparr>,
        \<lparr>st_product_id = 1, st_branch_id = 1000, st_stock_available = 60,
         st_expiry_date = 10368000000000000\<rparr>],
     analysis_df = None, allocation_plan_df = None, unfulfilled_demands_df = [],
     remaining_cw_stock_df = None\<rparr>"

definition demo_analysis :: "analysis_row list" where
  "demo_analysis =
     [\<lparr>an_product_id = 1, an_branch_id = 1, an_channel_id = 10, an_forecast_quantity = 100,
       an_total_stock_available = 30, an_total_forecast_at_branch = 150, an_branch_net_need = 120,
       an_allocation_status = ''Allocation Needed''\<rparr>,
      \<lparr>an_product_id = 1, an_branch_id = 1, an_channel_id = 20, an_forecast_quantity = 50,
       an_total_stock_available = 30, an_total_forecast_at_branch = 150, an_branch_net_need = 120,
       an_allocation_status = ''Allocation Needed''\<rparr>,
      \<lparr>an_product_id = 1, an_branch_id = 2, an_channel_id = 10, an_forecast_quantity = 40,
       an_total_stock_available = 0, an_total_forecast_at_branch = 40, an_branch_net_need = 40,
       an_allocation_status = ''Allocation Needed''\<rparr>]"

section \<open>Functions and quantities used in the proofs\<close>

text \<open>
  The inner loop reads the quantities of the batches from the selection made before it
  starts, so the records it appends depend only on that selection (\<open>batch_recs\<close>); the
  working copy is then the old one with these records subtracted (\<open>apply_recs\<close>).
  \<open>line_step\<close> is one iteration of the outer loop written with these, and \<open>final_state\<close>
  the state after the last iteration. They are shown equal to \<open>batch_loop\<close>,
  \<open>process_line\<close> and \<open>allocation_loop\<close> below. \<open>allocated_to\<close> and \<open>drawn_from\<close> are the
  sums the conservation properties speak of.
\<close>

fun batch_recs ::
  "int \<Rightarrow> analysis_row \<Rightarrow> int \<Rightarrow> (nat \<times> stock_row) list \<Rightarrow> int \<Rightarrow> (nat \<times> allocation_row) list" where
  "batch_recs cw demand_row qty [] fulfilled = []"
| "batch_recs cw demand_row qty ((batch_idx, batch_row) # rest) fulfilled =
     (if st_stock_available batch_row = 0 then batch_recs cw demand_row qty rest fulfilled
      else
        (let take = min (qty - fulfilled) (st_stock_available batch_row);
             rec = (batch_idx,
                      \<lparr>al_product_id = an_product_id demand_row, al_from_branch = cw,
                       al_to_branch = an_branch_id demand_row,
                       al_channel_id = an_channel_id demand_row,
                       al_quantity_allocated = take,
                       al_expiry_date = st_expiry_date batch_row\<rparr>)
         in if fulfilled + take = qty then [rec]
            else rec # batch_recs cw demand_row qty rest (fulfilled + take)))"

definition total_allocated :: "(nat \<times> allocation_row) list \<Rightarrow> int" where
  "total_allocated recs = sum_list (map (\<lambda>(i, r). al_quantity_allocated r) recs)"

definition apply_recs :: "(nat \<times> stock_row) list \<Rightarrow> (nat \<times> allocation_row) list \<Rightarrow> (nat \<times> stock_row) list" where
  "apply_recs stock recs = foldl (\<lambda>s (i, r). loc_sub s i (al_quantity_allocated r)) stock recs"

definition line_recs ::
  "int \<Rightarrow> (int \<rightharpoonup> int) \<Rightarrow> time \<Rightarrow> analysis_row \<Rightarrow> alloc_state \<Rightarrow> (nat \<times> allocation_row) list" where
  "line_recs cw expiry_rules today demand_row st =
     (let remaining = dict_get (branch_need_tracker st) (an_product_id demand_row, an_branch_id demand_row) 0
      in if remaining \<le> 0 then []
         else batch_recs cw demand_row (min (an_forecast_quantity demand_row) remaining)
                (available_batches expiry_rules today demand_row (cw_stock_sorted st)) 0)"

definition tracker_sub :: "((int \<times> int) \<times> int) list \<Rightarrow> int \<times> int \<Rightarrow> int \<Rightarrow> ((int \<times> int) \<times> int) list" where
  "tracker_sub d k x = map (\<lambda>(k', v'). if k' = k then (k', v' - x) else (k', v')) d"

definition line_step ::
  "int \<Rightarrow> (int \<rightharpoonup> int) \<Rightarrow> time \<Rightarrow> alloc_state \<Rightarrow> analysis_row \<Rightarrow> alloc_state" where
  "line_step cw expiry_rules today st demand_row =
     (let recs = line_recs cw expiry_rules today demand_row st
      in \<lparr>cw_stock_sorted = apply_recs (cw_stock_sorted st) recs,
          branch_need_tracker =
            tracker_sub (branch_need_tracker st) (an_product_id demand_row, an_branch_id demand_row)
              (total_allocated recs),
          allocation_plan = allocation_plan st @ recs\<rparr>)"

definition allocated_to :: "int \<Rightarrow> int \<Rightarrow> allocation_row list \<Rightarrow> int" where
  "allocated_to p b plan =
     sum_list (map al_quantity_allocated
       (filter (\<lambda>r. al_product_id r = p \<and> al_to_branch r = b) plan))"

definition drawn_from :: "nat \<Rightarrow> (nat \<times> allocation_row) list \<Rightarrow> int" where
  "drawn_from l recs = sum_list (map (\<lambda>(i, r). al_quantity_allocated r) (filter (\<lambda>(i, r). i = l) recs))"

definition line_key :: "analysis_row \<Rightarrow> int \<times> int \<times> int" where
  "line_key d = (an_product_id d, an_branch_id d, an_channel_id d)"

definition record_key :: "allocation_row \<Rightarrow> int \<times> int \<times> int" where
  "record_key r = (al_product_id r, al_to_branch r, al_channel_id r)"




definition line_expiries :: "int \<times> int \<times> int \<Rightarrow> (nat \<times> allocation_row) list \<Rightarrow> time list" where
  "line_expiries k plan = map (\<lambda>(i, r). al_expiry_date r) (filter (\<lambda>(i, r). record_key r = k) plan)"








section \<open>The analysis frame in closed form\<close>

lemma filter_key_distinct:
  "distinct (map fst xs) \<Longrightarrow>
   filter (\<lambda>(k, v). k = a) xs = (case map_of xs a of None \<Rightarrow> [] | Some v \<Rightarrow> [(a, v)])"
proof (induction xs)
  case Nil
  then show ?case by simp
next
  case (Cons x xs)
  obtain k v where x: "x = (k, v)" by (cases x)
  show ?case
  proof (cases "k = a")
    case True
    with Cons.prems x have "map_of xs a = None"
      by (simp add: map_of_eq_None_iff)
    with Cons True x show ?thesis by simp
  next
    case False
    with Cons x show ?thesis by simp
  qed
qed

lemma groupby_sum_distinct: "distinct (map fst (groupby_sum key col rows))"
  by (simp add: groupby_sum_def comp_def)

lemma map_of_groupby_sum:
  "map_of (groupby_sum key col rows) k =
     (if k \<in> key ` set rows then Some (sum_list (map col (filter (\<lambda>r. key r = k) rows))) else None)"
  by (simp add: groupby_sum_def map_of_map_restrict restrict_map_def)

lemma merge_left_distinct:
  "distinct (map fst right) \<Longrightarrow>
   merge_left key left right = map (\<lambda>l. (l, map_of right (key l))) left"
proof (induction left)
  case Nil
  then show ?case by (simp add: merge_left_def)
next
  case (Cons l left)
  then have "merge_left key left right = map (\<lambda>l. (l, map_of right (key l))) left" by simp
  then show ?case
    using filter_key_distinct[OF Cons.prems, of "key l"]
    by (simp add: merge_left_def split: option.splits)
qed

lemma merge_inner_distinct:
  "distinct (map fst right) \<Longrightarrow> \<forall>l \<in> set left. map_of right (key l) = Some (g l) \<Longrightarrow>
   merge_inner key left right = map (\<lambda>l. (l, g l)) left"
proof (induction left)
  case Nil
  then show ?case by (simp add: merge_inner_def)
next
  case (Cons l left)
  then have "merge_inner key left right = map (\<lambda>l. (l, g l)) left" by simp
  then show ?case
    using filter_key_distinct[OF Cons.prems(1), of "key l"] Cons.prems(2)
    by (simp add: merge_inner_def)
qed

lemma agg_forecast_eq:
  "groupby_sum (\<lambda>f. (fc_product_id f, fc_branch_id f, fc_channel_id f)) fc_forecast_quantity forecast
   = map (\<lambda>(p, b, c). ((p, b, c), channel_forecast_total forecast p b c)) (forecast_keys forecast)"
  by (auto simp: groupby_sum_def forecast_keys_def channel_forecast_total_def)

lemma fillna_agg_branch_stock:
  "fillna 0 (map_of (groupby_sum (\<lambda>s. (st_product_id s, st_branch_id s)) st_stock_available
       (filter (\<lambda>s. st_branch_id s \<noteq> cw) stock)) (p, b)) = branch_stock_total cw stock p b"
proof -
  have fl: "filter (\<lambda>r. (st_product_id r, st_branch_id r) = (p, b)) (filter (\<lambda>s. st_branch_id s \<noteq> cw) stock)
      = filter (\<lambda>s. st_branch_id s \<noteq> cw \<and> st_product_id s = p \<and> st_branch_id s = b) stock"
    by (simp add: conj_commute conj_left_commute)
  have none0: "(p, b) \<notin> (\<lambda>s. (st_product_id s, st_branch_id s)) ` set (filter (\<lambda>s. st_branch_id s \<noteq> cw) stock)
      \<Longrightarrow> branch_stock_total cw stock p b = 0"
  proof -
    assume a: "(p, b) \<notin> (\<lambda>s. (st_product_id s, st_branch_id s)) ` set (filter (\<lambda>s. st_branch_id s \<noteq> cw) stock)"
    have "filter (\<lambda>s. st_branch_id s \<noteq> cw \<and> st_product_id s = p \<and> st_branch_id s = b) stock = []"
      unfolding filter_empty_conv using a by force
    then show ?thesis unfolding branch_stock_total_def by simp
  qed
  show ?thesis
    unfolding map_of_groupby_sum fl using none0
    by (simp add: fillna_def branch_stock_total_def)
qed

lemma analysis_frame_eq:
  "analysis_frame cw forecast stock = map (analysis_row_of cw forecast stock) (forecast_keys forecast)"
proof -
  let ?abs = "groupby_sum (\<lambda>s. (st_product_id s, st_branch_id s)) st_stock_available
       (filter (\<lambda>s. st_branch_id s \<noteq> cw) stock)"
  let ?af = "groupby_sum (\<lambda>f. (fc_product_id f, fc_branch_id f, fc_channel_id f)) fc_forecast_quantity forecast"
  let ?key = "\<lambda>((p, b, c), q). (p, b)"
  let ?merged = "map (\<lambda>(l, v). (l, fillna (0::int) v)) (merge_left ?key ?af ?abs)"
  let ?key2 = "\<lambda>(((p, b, c), q), s). (p, b)"
  let ?q2 = "\<lambda>(((p, b, c), q::int), s::int). q"
  let ?btf = "groupby_sum ?key2 ?q2 ?merged"
  have m: "?merged = map (\<lambda>(p, b, c). (((p, b, c), channel_forecast_total forecast p b c),
                            branch_stock_total cw stock p b)) (forecast_keys forecast)"
    unfolding merge_left_distinct[OF groupby_sum_distinct] agg_forecast_eq
    by (simp add: comp_def case_prod_unfold fillna_agg_branch_stock)
  have t: "sum_list (map ?q2 (filter (\<lambda>r. ?key2 r = (p, b)) ?merged)) = branch_forecast_total forecast p b" for p b
    unfolding m branch_forecast_total_def
    by (simp add: filter_map comp_def case_prod_unfold)
  have look: "\<forall>l \<in> set ?merged. map_of ?btf (?key2 l) = Some (case l of (((p, b, c), q), s) \<Rightarrow> branch_forecast_total forecast p b)"
    unfolding map_of_groupby_sum by (auto simp: t)
  have m2: "merge_inner ?key2 ?merged ?btf
      = map (\<lambda>l. (l, case l of (((p, b, c), q), s) \<Rightarrow> branch_forecast_total forecast p b)) ?merged"
    by (rule merge_inner_distinct[OF groupby_sum_distinct look])
  show ?thesis
    unfolding analysis_frame_def Let_def m2
    unfolding m
    by (simp add: comp_def case_prod_unfold analysis_row_of_def)
qed

lemma demo_analysis_frame:
  "analysis_frame 1000 (forecast_df demo) (stock_df demo) = demo_analysis"
  by code_simp

lemma demo_run_analysis: "analysis_df (run_analysis demo) = Some demo_analysis"
  using demo_analysis_frame by (simp add: run_analysis_def demo_def)

lemma analysis_df_run_analysis:
  "analysis_df (run_analysis self) =
     Some (map (analysis_row_of (cw_branch_id self) (forecast_df self) (stock_df self))
             (forecast_keys (forecast_df self)))"
  by (simp add: run_analysis_def analysis_frame_eq)



section \<open>Properties of the analysis table\<close>

text \<open>
  C8. In the table that \<open>run_analysis\<close> stores, any two rows with the same product and
  branch agree on \<open>total_stock_available\<close>, \<open>total_forecast_at_branch\<close>,
  \<open>branch_net_need\<close> and \<open>allocation_status\<close>.
\<close>

theorem analysis_broadcast:
  "\<exists>analysis. analysis_df (run_analysis self) = Some analysis \<and>
     (\<forall>r1 \<in> set analysis. \<forall>r2 \<in> set analysis.
        an_product_id r1 = an_product_id r2 \<and> an_branch_id r1 = an_branch_id r2 \<longrightarrow>
        an_total_stock_available r1 = an_total_stock_available r2 \<and>
        an_total_forecast_at_branch r1 = an_total_forecast_at_branch r2 \<and>
        an_branch_net_need r1 = an_branch_net_need r2 \<and>
        an_allocation_status r1 = an_allocation_status r2)"
  unfolding analysis_df_run_analysis
  by (auto simp: analysis_row_of_def)

theorem analysis_broadcast_witness:
  "analysis_df (run_analysis demo) = Some demo_analysis \<and>
   demo_analysis ! 0 \<in> set demo_analysis \<and> demo_analysis ! 1 \<in> set demo_analysis \<and>
   an_product_id (demo_analysis ! 0) = an_product_id (demo_analysis ! 1) \<and>
   an_branch_id (demo_analysis ! 0) = an_branch_id (demo_analysis ! 1) \<and>
   an_channel_id (demo_analysis ! 0) \<noteq> an_channel_id (demo_analysis ! 1) \<and>
   an_total_stock_available (demo_analysis ! 0) = an_total_stock_available (demo_analysis ! 1) \<and>
   an_total_forecast_at_branch (demo_analysis ! 0) = an_total_forecast_at_branch (demo_analysis ! 1) \<and>
   an_branch_net_need (demo_analysis ! 0) = an_branch_net_need (demo_analysis ! 1) \<and>
   an_allocation_status (demo_analysis ! 0) = an_allocation_status (demo_analysis ! 1)"
proof -
  obtain a where a: "analysis_df (run_analysis demo) = Some a"
    and b: "\<forall>r1 \<in> set a. \<forall>r2 \<in> set a.
        an_product_id r1 = an_product_id r2 \<and> an_branch_id r1 = an_branch_id r2 \<longrightarrow>
        an_total_stock_available r1 = an_total_stock_available r2 \<and>
        an_total_forecast_at_branch r1 = an_total_forecast_at_branch r2 \<and>
        an_branch_net_need r1 = an_branch_net_need r2 \<and>
        an_allocation_status r1 = an_allocation_status r2"
    using analysis_broadcast [of demo] by blast
  from a demo_run_analysis have e: "a = demo_analysis" by simp
  have m0: "demo_analysis ! 0 \<in> set demo_analysis" by (simp add: demo_analysis_def)
  have m1: "demo_analysis ! 1 \<in> set demo_analysis" by (simp add: demo_analysis_def)
  have k: "an_product_id (demo_analysis ! 0) = an_product_id (demo_analysis ! 1) \<and>
    an_branch_id (demo_analysis ! 0) = an_branch_id (demo_analysis ! 1)"
    by (simp add: demo_analysis_def)
  have c: "an_channel_id (demo_analysis ! 0) \<noteq> an_channel_id (demo_analysis ! 1)"
    by (simp add: demo_analysis_def)
  note q = b [unfolded e, rule_format, OF m0 m1 k]
  show ?thesis using demo_run_analysis m0 m1 k c q by (intro conjI) (elim conjE, assumption)+
qed

text \<open>
  C9. In the table that \<open>run_analysis\<close> stores, a row's status is "Allocation Needed"
  exactly when its \<open>branch_net_need\<close> is positive, "No Allocation Needed" exactly when
  it is zero, and "Overstock" exactly when it is negative.
\<close>

theorem status_classification:
  "\<exists>analysis. analysis_df (run_analysis self) = Some analysis \<and>
     (\<forall>r \<in> set analysis.
        (an_allocation_status r = ''Allocation Needed'' \<longleftrightarrow> an_branch_net_need r > 0) \<and>
        (an_allocation_status r = ''No Allocation Needed'' \<longleftrightarrow> an_branch_net_need r = 0) \<and>
        (an_allocation_status r = ''Overstock'' \<longleftrightarrow> an_branch_net_need r < 0))"
  unfolding analysis_df_run_analysis
  by (auto simp: analysis_row_of_def allocation_status_of_def split: if_splits)

theorem status_classification_witness:
  "analysis_df (run_analysis demo) = Some demo_analysis \<and>
   demo_analysis ! 2 \<in> set demo_analysis \<and>
   an_branch_net_need (demo_analysis ! 2) = 40 \<and>
   an_allocation_status (demo_analysis ! 2) = ''Allocation Needed'' \<and>
   an_allocation_status (demo_analysis ! 2) \<noteq> ''No Allocation Needed'' \<and>
   an_allocation_status (demo_analysis ! 2) \<noteq> ''Overstock''"
proof -
  obtain a where a: "analysis_df (run_analysis demo) = Some a"
    and b: "\<forall>r \<in> set a.
        (an_allocation_status r = ''Allocation Needed'' \<longleftrightarrow> an_branch_net_need r > 0) \<and>
        (an_allocation_status r = ''No Allocation Needed'' \<longleftrightarrow> an_branch_net_need r = 0) \<and>
        (an_allocation_status r = ''Overstock'' \<longleftrightarrow> an_branch_net_need r < 0)"
    using status_classification [of demo] by blast
  from a demo_run_analysis have e: "a = demo_analysis" by simp
  have m: "demo_analysis ! 2 \<in> set demo_analysis" by (simp add: demo_analysis_def)
  have n: "an_branch_net_need (demo_analysis ! 2) = 40" by (simp add: demo_analysis_def)
  note q = b [unfolded e, rule_format, OF m]
  from q n have s1: "an_allocation_status (demo_analysis ! 2) = ''Allocation Needed''" by simp
  from q n have s2: "an_allocation_status (demo_analysis ! 2) \<noteq> ''No Allocation Needed''" by simp
  from q n have s3: "an_allocation_status (demo_analysis ! 2) \<noteq> ''Overstock''" by simp
  show ?thesis using demo_run_analysis m n s1 s2 s3 by (intro conjI)
qed



section \<open>The allocation loop as a fold\<close>

lemma apply_recs_simps [simp]:
  "apply_recs stock [] = stock"
  "apply_recs stock ((i, r) # recs) = apply_recs (loc_sub stock i (al_quantity_allocated r)) recs"
  by (simp_all add: apply_recs_def)

lemma total_allocated_simps [simp]:
  "total_allocated [] = 0"
  "total_allocated ((i, r) # recs) = al_quantity_allocated r + total_allocated recs"
  by (simp_all add: total_allocated_def)


lemma tracker_sub_zero [simp]: "tracker_sub d k 0 = d"
  by (induction d) (auto simp: tracker_sub_def)


lemma batch_recs_Nil [simp]: "batch_recs cw demand_row qty [] f = []"
  by simp



lemma drawn_from_simps [simp]:
  "drawn_from l [] = 0"
  "drawn_from l ((i, r) # recs) = (if i = l then al_quantity_allocated r else 0) + drawn_from l recs"
  by (simp_all add: drawn_from_def)

lemma drawn_from_append [simp]: "drawn_from l (xs @ ys) = drawn_from l xs + drawn_from l ys"
  by (simp add: drawn_from_def)

lemma allocated_to_append [simp]:
  "allocated_to p b (xs @ ys) = allocated_to p b xs + allocated_to p b ys"
  by (simp add: allocated_to_def)

lemma total_allocated_append [simp]:
  "total_allocated (xs @ ys) = total_allocated xs + total_allocated ys"
  by (simp add: total_allocated_def)

lemma apply_recs_append [simp]:
  "apply_recs s (xs @ ys) = apply_recs (apply_recs s xs) ys"
  by (simp add: apply_recs_def)







text \<open>The decrement of the working copy\<close>

lemma map_fst_loc_sub [simp]: "map fst (loc_sub s i x) = map fst s"
  by (induction s) (auto simp: loc_sub_def)


lemma keys_loc_sub [simp]:
  "map (\<lambda>(i, r). (st_product_id r, st_expiry_date r)) (loc_sub s i x)
     = map (\<lambda>(i, r). (st_product_id r, st_expiry_date r)) s"
  by (induction s) (auto simp: loc_sub_def)

lemma map_fst_apply_recs [simp]: "map fst (apply_recs s recs) = map fst s"
proof (induction recs arbitrary: s)
  case Nil
  then show ?case by simp
next
  case (Cons x recs)
  then show ?case by (cases x) simp
qed

lemma keys_apply_recs [simp]:
  "map (\<lambda>(i, r). (st_product_id r, st_expiry_date r)) (apply_recs s recs)
     = map (\<lambda>(i, r). (st_product_id r, st_expiry_date r)) s"
proof (induction recs arbitrary: s)
  case Nil
  then show ?case by simp
next
  case (Cons x recs)
  then show ?case by (cases x) simp
qed










lemma map_fst_tracker_sub [simp]: "map fst (tracker_sub d k x) = map fst d"
  by (induction d) (auto simp: tracker_sub_def)














text \<open>Columns of the working copy that the loop never writes\<close>

lemma static_loc_sub [simp]:
  "map (\<lambda>(i, r). (i, st_product_id r, st_branch_id r, st_expiry_date r)) (loc_sub s i x)
     = map (\<lambda>(i, r). (i, st_product_id r, st_branch_id r, st_expiry_date r)) s"
  by (induction s) (auto simp: loc_sub_def)



lemma line_step_sel [simp]:
  "cw_stock_sorted (line_step cw er today s d) =
     apply_recs (cw_stock_sorted s) (line_recs cw er today d s)"
  "allocation_plan (line_step cw er today s d) = allocation_plan s @ line_recs cw er today d s"
  "branch_need_tracker (line_step cw er today s d) =
     tracker_sub (branch_need_tracker s) (an_product_id d, an_branch_id d)
       (total_allocated (line_recs cw er today d s))"
  by (simp_all add: line_step_def Let_def)







lemma line_expiries_append [simp]:
  "line_expiries k (xs @ ys) = line_expiries k xs @ line_expiries k ys"
  by (simp add: line_expiries_def)






lemma line_key_analysis_row_of [simp]: "line_key (analysis_row_of cw forecast stock k) = k"
  by (cases k) (simp add: line_key_def analysis_row_of_def)



lemma set_prioritized [simp]:
  "set (prioritized_demand_df pc pb analysis) = set (demand_df analysis)"
  by (simp add: prioritized_demand_df_def)


















text \<open>Empty inputs\<close>

lemma analysis_frame_no_forecast [simp]: "analysis_frame cw [] stock = []"
  by (simp add: analysis_frame_eq forecast_keys_def)


































end
